theory Spec2Isabelle
  imports Complex_Main "HOL-Library.Sublist" "HOL-Library.Multiset"
begin

section \<open>The memory store of \<open>src/index.ts\<close>\<close>

text \<open>
  The server keeps one JSON document of memory records in a file. Each of the four tool
  handlers (\<open>reflect\<close>, \<open>recall\<close>, \<open>modify\<close>, \<open>erase\<close>) loads the document, works on the
  list of records and, when it changes something, writes the whole document back.

  The embedding follows the handlers line by line. What a call reads from outside the
  program is made explicit: the file is a value that is passed in and returned, the
  readings of the clock and the generated identifier are fields of an environment, and
  the two builtins whose result depends on the platform (\<open>Date\<close> parsing) or on Unicode
  tables (\<open>toLowerCase\<close>) are stated where they are introduced.
\<close>

subsection \<open>Data model\<close>

datatype Importance = Low | Medium | High

datatype MemoryType = Conversation | Decision | Preference | Fact | Other

text \<open>The interface \<open>Memory\<close>; \<open>session_id\<close> is the only optional field.\<close>

record Memory =
  mem_id :: string
  mem_content :: string
  mem_tags :: "string list"
  mem_context :: string
  mem_timestamp :: string
  mem_session_id :: "string option"
  mem_importance :: Importance
  mem_type :: MemoryType

text \<open>The interface \<open>MemoryStorage\<close>.\<close>

record MemoryStorage =
  memories :: "Memory list"
  version :: string
  last_updated :: string

text \<open>
  The backing file. \<open>readFile\<close> raises when there is no file and \<open>JSON.parse\<close> raises
  when its text is not JSON; otherwise \<open>loadMemories\<close> returns the parsed value as a
  \<open>MemoryStorage\<close> without looking at it, so \<open>Document\<close> carries a value of that type.
\<close>

datatype File = NoFile | InvalidJson | Document MemoryStorage

text \<open>
  What one call reads from its environment: \<open>new Date().toISOString()\<close> is evaluated in
  the \<open>catch\<close> of \<open>loadMemories\<close>, for the timestamp of a new record and in
  \<open>saveMemories\<close>; \<open>uuidv4()\<close> is drawn once, in \<open>handleReflect\<close>.
\<close>

record Env =
  clock_load :: string
  clock_stamp :: string
  clock_save :: string
  uuidv4 :: string

text \<open>
  The arguments of the four tools, as the type guards \<open>isValid...Args\<close> narrow them. An
  absent argument (\<open>undefined\<close>) is \<open>None\<close>. The guards look at the shape only: they
  bound neither the limit nor the length of a string, and the \<open>minimum\<close> and \<open>maximum\<close>
  of the published input schema are not checked by the handlers. A limit is a number;
  \<open>NaN\<close> and the infinities, which JSON text cannot carry, are left out.
\<close>

record ReflectArgs =
  reflect_content :: string
  reflect_tags :: "string list option"
  reflect_context :: "string option"
  reflect_session_id :: "string option"
  reflect_importance :: "Importance option"
  reflect_type :: "MemoryType option"

record RecallArgs =
  recall_query :: "string option"
  recall_tags :: "string list option"
  recall_session_id :: "string option"
  recall_importance :: "Importance option"
  recall_type :: "MemoryType option"
  recall_limit :: "real option"

record ModifyArgs =
  modify_id :: string
  modify_content :: "string option"
  modify_tags :: "string list option"
  modify_context :: "string option"
  modify_importance :: "Importance option"
  modify_type :: "MemoryType option"

record EraseArgs =
  erase_id :: "string option"
  erase_query :: "string option"
  erase_tags :: "string list option"
  erase_session_id :: "string option"
  erase_confirm :: "bool option"

text \<open>The second parameter of \<open>filterMemories\<close>.\<close>

record Filters =
  f_tags :: "string list option"
  f_session_id :: "string option"
  f_importance :: "Importance option"
  f_type :: "MemoryType option"

text \<open>
  Both failures of the handlers are \<open>McpError(ErrorCode.InvalidParams, message)\<close>; they
  differ in the message only.
\<close>

datatype ErrorCode = InvalidParams | MethodNotFound

datatype McpError = McpError ErrorCode string

definition not_found :: "string \<Rightarrow> McpError" where
  "not_found i = McpError InvalidParams (''Memory with ID '' @ i @ '' not found'')"

text \<open>
  A handler answers with one text. The model keeps the values the text is built from:
  the stored record, the records found, the record before and after a modification,
  the deleted id, the records of a bulk preview, and \<open>deletedIds.length\<close>.
\<close>

datatype Response =
    Stored Memory
  | Found "Memory list"
  | Updated Memory Memory
  | Deleted string
  | Preview "Memory list"
  | DeletedBulk nat

type_synonym Outcome = "(McpError + Response) \<times> File"

subsection \<open>JavaScript builtins\<close>

text \<open>
  An optional string is truthy when it is present and not empty: \<open>if (args.id)\<close>,
  \<open>if (!query)\<close>, \<open>filters.session_id && ...\<close>.
\<close>

definition truthy :: "string option \<Rightarrow> bool" where
  "truthy s = (case s of None \<Rightarrow> False | Some t \<Rightarrow> t \<noteq> [])"

text \<open>\<open>!args.confirm\<close> holds for \<open>undefined\<close> and for \<open>false\<close>.\<close>

definition confirmed :: "bool option \<Rightarrow> bool" where
  "confirmed c = (case c of None \<Rightarrow> False | Some b \<Rightarrow> b)"

text \<open>
  \<open>toLowerCase\<close> on the letters \<open>A\<close> to \<open>Z\<close>; every other character is kept. (On
  characters outside ASCII, JavaScript follows the Unicode case mapping.)
\<close>

definition lower_char :: "char \<Rightarrow> char" where
  "lower_char c =
     (let n = (of_char c :: nat) in if 65 \<le> n \<and> n \<le> 90 then char_of (n + 32) else c)"

definition toLowerCase :: "string \<Rightarrow> string" where
  "toLowerCase s = map lower_char s"

text \<open>\<open>s.includes(t)\<close>: \<open>t\<close> occurs in \<open>s\<close> at some position.\<close>

fun str_includes :: "string \<Rightarrow> string \<Rightarrow> bool" where
  "str_includes [] t = (t = [])"
| "str_includes (c # s) t = (prefix t (c # s) \<or> str_includes s t)"

text \<open>\<open>findIndex\<close>, with \<open>None\<close> for \<open>-1\<close>.\<close>

fun findIndex :: "('a \<Rightarrow> bool) \<Rightarrow> 'a list \<Rightarrow> nat option" where
  "findIndex P [] = None"
| "findIndex P (x # xs) = (if P x then Some 0 else map_option Suc (findIndex P xs))"

text \<open>
  \<open>Array.prototype.sort\<close> with a comparison function. The comparison returns a number or
  \<open>NaN\<close> (\<open>None\<close>), and \<open>sort\<close> reads \<open>NaN\<close> as \<open>+0\<close>. The sort is stable: an element moves
  behind another one only when the comparison of the two is positive. For a comparison
  that is not consistent the standard leaves the order to the implementation; the
  comparison of \<open>handleRecall\<close> is consistent when every timestamp is a date.
\<close>

definition comes_after :: "('a \<Rightarrow> 'a \<Rightarrow> int option) \<Rightarrow> 'a \<Rightarrow> 'a \<Rightarrow> bool" where
  "comes_after cmp x y = (case cmp x y of None \<Rightarrow> False | Some v \<Rightarrow> 0 < v)"

fun sort_insert :: "('a \<Rightarrow> 'a \<Rightarrow> int option) \<Rightarrow> 'a \<Rightarrow> 'a list \<Rightarrow> 'a list" where
  "sort_insert cmp x [] = [x]"
| "sort_insert cmp x (y # ys) =
     (if comes_after cmp x y then y # sort_insert cmp x ys else x # y # ys)"

fun array_sort :: "('a \<Rightarrow> 'a \<Rightarrow> int option) \<Rightarrow> 'a list \<Rightarrow> 'a list" where
  "array_sort cmp [] = []"
| "array_sort cmp (x # xs) = sort_insert cmp x (array_sort cmp xs)"

text \<open>
  \<open>xs.slice(0, end)\<close>: \<open>end\<close> is truncated to an integer; a negative \<open>end\<close> counts from
  the end of the array.
\<close>

definition slice0 :: "'a list \<Rightarrow> real \<Rightarrow> 'a list" where
  "slice0 xs end =
     (let relativeEnd = (if end < 0 then \<lceil>end\<rceil> else \<lfloor>end\<rfloor>);
          len = int (length xs);
          final = (if relativeEnd < 0 then max (len + relativeEnd) 0 else min relativeEnd len)
      in take (nat final) xs)"

subsection \<open>Loading and saving\<close>

definition loadMemories :: "Env \<Rightarrow> File \<Rightarrow> MemoryStorage" where
  "loadMemories env file =
     (case file of
        Document storage \<Rightarrow> storage
      | _ \<Rightarrow> \<lparr>memories = [], version = ''1.0.0'', last_updated = clock_load env\<rparr>)"

text \<open>The write replaces the whole file; it is taken to succeed.\<close>

definition saveMemories :: "Env \<Rightarrow> MemoryStorage \<Rightarrow> File" where
  "saveMemories env storage = Document (storage\<lparr>last_updated := clock_save env\<rparr>)"

subsection \<open>Searching and filtering\<close>

definition query_match :: "string \<Rightarrow> Memory \<Rightarrow> bool" where
  "query_match searchTerm memory =
     (str_includes (toLowerCase (mem_content memory)) searchTerm \<or>
      str_includes (toLowerCase (mem_context memory)) searchTerm \<or>
      list_ex (\<lambda>tag. str_includes (toLowerCase tag) searchTerm) (mem_tags memory))"

definition searchMemories :: "Memory list \<Rightarrow> string option \<Rightarrow> Memory list" where
  "searchMemories mems query =
     (case query of
        None \<Rightarrow> mems
      | Some q \<Rightarrow> if q = [] then mems else filter (query_match (toLowerCase q)) mems)"

definition filter_keep :: "Filters \<Rightarrow> Memory \<Rightarrow> bool" where
  "filter_keep filters memory =
     (if (case f_tags filters of
            None \<Rightarrow> False
          | Some ts \<Rightarrow> \<not> list_ex (\<lambda>tag. tag \<in> set (mem_tags memory)) ts) then False
      else if truthy (f_session_id filters) \<and> mem_session_id memory \<noteq> f_session_id filters
        then False
      else if (case f_importance filters of
                 None \<Rightarrow> False
               | Some i \<Rightarrow> mem_importance memory \<noteq> i) then False
      else if (case f_type filters of
                 None \<Rightarrow> False
               | Some t \<Rightarrow> mem_type memory \<noteq> t) then False
      else True)"

definition filterMemories :: "Memory list \<Rightarrow> Filters \<Rightarrow> Memory list" where
  "filterMemories mems filters = filter (filter_keep filters) mems"

subsection \<open>The handlers\<close>

definition handleReflect :: "Env \<Rightarrow> ReflectArgs \<Rightarrow> File \<Rightarrow> Outcome" where
  "handleReflect env args file =
     (let storage = loadMemories env file;
          newMemory = \<lparr>mem_id = uuidv4 env,
                       mem_content = reflect_content args,
                       mem_tags = (case reflect_tags args of None \<Rightarrow> [] | Some ts \<Rightarrow> ts),
                       mem_context = (case reflect_context args of None \<Rightarrow> [] | Some c \<Rightarrow> c),
                       mem_timestamp = clock_stamp env,
                       mem_session_id = reflect_session_id args,
                       mem_importance =
                         (case reflect_importance args of None \<Rightarrow> Medium | Some i \<Rightarrow> i),
                       mem_type = (case reflect_type args of None \<Rightarrow> Other | Some t \<Rightarrow> t)\<rparr>
      in (Inr (Stored newMemory),
          saveMemories env (storage\<lparr>memories := memories storage @ [newMemory]\<rparr>)))"

text \<open>
  \<open>handleReflect\<close> fills the defaults with \<open>||\<close>: absent tags become the empty list, an
  absent or empty context the empty string.

  The steps of \<open>handleRecall\<close>: the records that match the query and the filters, the
  comparison function of the sort, and \<open>args.limit || 10\<close>.
\<close>

definition recall_matches :: "RecallArgs \<Rightarrow> Memory list \<Rightarrow> Memory list" where
  "recall_matches args mems =
     filterMemories
       (if truthy (recall_query args) then searchMemories mems (recall_query args) else mems)
       \<lparr>f_tags = recall_tags args, f_session_id = recall_session_id args,
        f_importance = recall_importance args, f_type = recall_type args\<rparr>"

text \<open>
  The parameter \<open>getTime\<close> stands for \<open>new Date(s).getTime()\<close>, the milliseconds since the
  epoch of the date a string denotes, with \<open>None\<close> for \<open>NaN\<close> when the string is not a
  date. Which strings are dates is left to the platform, so the handlers are stated for
  every such function.
\<close>

definition by_timestamp :: "(string \<Rightarrow> int option) \<Rightarrow> Memory \<Rightarrow> Memory \<Rightarrow> int option" where
  "by_timestamp getTime a b =
     (case (getTime (mem_timestamp b), getTime (mem_timestamp a)) of
        (Some tb, Some ta) \<Rightarrow> Some (tb - ta)
      | _ \<Rightarrow> None)"

definition recall_limit_or_default :: "RecallArgs \<Rightarrow> real" where
  "recall_limit_or_default args =
     (case recall_limit args of None \<Rightarrow> 10 | Some l \<Rightarrow> if l = 0 then 10 else l)"

definition handleRecall :: "(string \<Rightarrow> int option) \<Rightarrow> Env \<Rightarrow> RecallArgs \<Rightarrow> File \<Rightarrow> Outcome" where
  "handleRecall getTime env args file =
     (let storage = loadMemories env file;
          mems = recall_matches args (memories storage);
          sorted_mems = array_sort (by_timestamp getTime) mems;
          limit = recall_limit_or_default args
      in (Inr (Found (slice0 sorted_mems limit)), file))"

text \<open>
  \<open>handleModify\<close> assigns a field when its argument is not \<open>undefined\<close>; an empty string
  or an empty list of tags is assigned like any other value.
\<close>

definition modify_fields :: "ModifyArgs \<Rightarrow> Memory \<Rightarrow> Memory" where
  "modify_fields args memory =
     (let m1 = (case modify_content args of None \<Rightarrow> memory | Some c \<Rightarrow> memory\<lparr>mem_content := c\<rparr>);
          m2 = (case modify_tags args of None \<Rightarrow> m1 | Some ts \<Rightarrow> m1\<lparr>mem_tags := ts\<rparr>);
          m3 = (case modify_context args of None \<Rightarrow> m2 | Some c \<Rightarrow> m2\<lparr>mem_context := c\<rparr>);
          m4 = (case modify_importance args of None \<Rightarrow> m3 | Some i \<Rightarrow> m3\<lparr>mem_importance := i\<rparr>)
      in (case modify_type args of None \<Rightarrow> m4 | Some t \<Rightarrow> m4\<lparr>mem_type := t\<rparr>))"

definition handleModify :: "Env \<Rightarrow> ModifyArgs \<Rightarrow> File \<Rightarrow> Outcome" where
  "handleModify env args file =
     (let storage = loadMemories env file
      in case findIndex (\<lambda>m. mem_id m = modify_id args) (memories storage) of
           None \<Rightarrow> (Inl (not_found (modify_id args)), file)
         | Some memoryIndex \<Rightarrow>
             (let originalMemory = memories storage ! memoryIndex;
                  memory = modify_fields args originalMemory
              in (Inr (Updated originalMemory memory),
                  saveMemories env
                    (storage\<lparr>memories := (memories storage)[memoryIndex := memory]\<rparr>))))"

text \<open>
  The records a bulk \<open>erase\<close> selects; the preview and the deletion compute it alike. By
  id, \<open>handleErase\<close> drops every record of that id and fails when the length did not
  change; in bulk, it drops every record whose id is the id of a selected record.
\<close>

definition erase_matches :: "EraseArgs \<Rightarrow> Memory list \<Rightarrow> Memory list" where
  "erase_matches args mems =
     filterMemories
       (if truthy (erase_query args) then searchMemories mems (erase_query args) else mems)
       \<lparr>f_tags = erase_tags args, f_session_id = erase_session_id args,
        f_importance = None, f_type = None\<rparr>"

definition handleErase :: "Env \<Rightarrow> EraseArgs \<Rightarrow> File \<Rightarrow> Outcome" where
  "handleErase env args file =
     (let storage = loadMemories env file
      in if truthy (erase_id args) then
           (let i = (case erase_id args of None \<Rightarrow> [] | Some s \<Rightarrow> s);
                initialCount = length (memories storage);
                remaining = filter (\<lambda>m. mem_id m \<noteq> i) (memories storage)
            in if length remaining = initialCount then (Inl (not_found i), file)
               else (Inr (Deleted i), saveMemories env (storage\<lparr>memories := remaining\<rparr>)))
         else if \<not> confirmed (erase_confirm args) then
           (Inr (Preview (erase_matches args (memories storage))), file)
         else
           (let memoriesToDelete = erase_matches args (memories storage);
                deletedIds = map mem_id memoriesToDelete;
                remaining = filter (\<lambda>m. mem_id m \<notin> set deletedIds) (memories storage)
            in (Inr (DeletedBulk (length deletedIds)),
                saveMemories env (storage\<lparr>memories := remaining\<rparr>))))"

text \<open>The dispatch of a tool call to its handler.\<close>

datatype ToolCall =
    Reflect ReflectArgs
  | Recall RecallArgs
  | Modify ModifyArgs
  | Erase EraseArgs

fun callTool :: "(string \<Rightarrow> int option) \<Rightarrow> Env \<Rightarrow> ToolCall \<Rightarrow> File \<Rightarrow> Outcome" where
  "callTool getTime env (Reflect args) file = handleReflect env args file"
| "callTool getTime env (Recall args) file = handleRecall getTime env args file"
| "callTool getTime env (Modify args) file = handleModify env args file"
| "callTool getTime env (Erase args) file = handleErase env args file"

subsection \<open>The specification's notion of a case-insensitive substring\<close>



subsection \<open>A small store\<close>

text \<open>Two records, a document holding them, and the values of a call's environment.\<close>

definition example_a :: Memory where
  "example_a =
     \<lparr>mem_id = ''id-a'', mem_content = ''User prefers TypeScript'', mem_tags = [''a'', ''b''],
      mem_context = ''editor setup'', mem_timestamp = ''2024-01-01T00:00:00.000Z'',
      mem_session_id = Some ''s1'', mem_importance = High, mem_type = Preference\<rparr>"

definition example_b :: Memory where
  "example_b =
     \<lparr>mem_id = ''id-b'', mem_content = ''Y prefers dogs'', mem_tags = [''pref''],
      mem_context = [], mem_timestamp = ''2024-06-01T00:00:00.000Z'',
      mem_session_id = None, mem_importance = Low, mem_type = Fact\<rparr>"

definition example_storage :: MemoryStorage where
  "example_storage =
     \<lparr>memories = [example_a, example_b], version = ''1.0.0'',
      last_updated = ''2024-06-01T00:00:00.000Z''\<rparr>"

definition example_env :: Env where
  "example_env =
     \<lparr>clock_load = ''2024-07-01T00:00:00.000Z'', clock_stamp = ''2024-07-01T00:00:00.001Z'',
      clock_save = ''2024-07-01T00:00:00.002Z'', uuidv4 = ''id-c''\<rparr>"

text \<open>The milliseconds since the epoch of the two timestamps above.\<close>

definition example_getTime :: "string \<Rightarrow> int option" where
  "example_getTime =
     map_of [(''2024-01-01T00:00:00.000Z'', 1704067200000),
             (''2024-06-01T00:00:00.000Z'', 1717200000000)]"

definition example_time :: "Memory \<Rightarrow> int" where
  "example_time m = (case example_getTime (mem_timestamp m) of None \<Rightarrow> 0 | Some v \<Rightarrow> v)"

text \<open>Calls that supply no optional argument.\<close>

definition recall_nothing :: RecallArgs where
  "recall_nothing =
     \<lparr>recall_query = None, recall_tags = None, recall_session_id = None,
      recall_importance = None, recall_type = None, recall_limit = None\<rparr>"

definition erase_nothing :: EraseArgs where
  "erase_nothing =
     \<lparr>erase_id = None, erase_query = None, erase_tags = None, erase_session_id = None,
      erase_confirm = None\<rparr>"

section \<open>Properties\<close>

subsection \<open>Lists\<close>

lemma length_filter_eq_iff: "length (filter P xs) = length xs \<longleftrightarrow> (\<forall>x \<in> set xs. P x)"
proof
  assume "length (filter P xs) = length xs"
  then show "\<forall>x \<in> set xs. P x"
    using length_filter_less [of _ xs P] by fastforce
next
  assume "\<forall>x \<in> set xs. P x"
  then show "length (filter P xs) = length xs" by simp
qed

lemma filter_out_ids:
  assumes "distinct (map f xs)"
  shows "filter (\<lambda>x. f x \<notin> set (map f (filter P xs))) xs = filter (\<lambda>x. \<not> P x) xs"
  by (rule filter_cong) (use assms in \<open>auto simp: distinct_map dest: inj_onD\<close>)

lemma remove_one:
  assumes "distinct (map f xs)" "x \<in> set xs"
  shows "\<exists>ps ss. xs = ps @ x # ss \<and> filter (\<lambda>y. f y \<noteq> f x) xs = ps @ ss"
proof -
  from assms(2) obtain ps ss where xs: "xs = ps @ x # ss"
    by (auto simp: in_set_conv_decomp)
  with assms(1) have "\<forall>y \<in> set ps \<union> set ss. f y \<noteq> f x"
    by (force simp: image_iff)
  then have "filter (\<lambda>y. f y \<noteq> f x) xs = ps @ ss"
    unfolding xs by (auto simp: filter_id_conv)
  with xs show ?thesis by blast
qed

lemma findIndex_None: "findIndex P xs = None \<longleftrightarrow> (\<forall>x \<in> set xs. \<not> P x)"
  by (induction xs) auto

lemma findIndex_Some:
  "findIndex P xs = Some k \<longleftrightarrow> k < length xs \<and> P (xs ! k) \<and> (\<forall>j < k. \<not> P (xs ! j))"
proof (induction xs arbitrary: k)
  case Nil
  then show ?case by simp
next
  case (Cons x xs)
  show ?case
  proof (cases "P x")
    case True
    then show ?thesis by (cases k) auto
  next
    case False
    then show ?thesis using Cons.IH
      by (cases k) (auto simp: nth_Cons' less_Suc_eq_0_disj split: if_splits)
  qed
qed

lemma slice0_Nil: "slice0 [] e = []"
  by (simp add: slice0_def Let_def)

lemma slice0_take: "0 \<le> l \<Longrightarrow> slice0 xs l = take (nat \<lfloor>l\<rfloor>) xs"
  by (auto simp: slice0_def Let_def min_def)

subsection \<open>Strings\<close>






subsection \<open>Filters\<close>

lemma filter_keep_tags:
  "filter_keep (filters\<lparr>f_tags := Some ts\<rparr>) m \<longleftrightarrow>
     (\<exists>t \<in> set ts. t \<in> set (mem_tags m)) \<and> filter_keep (filters\<lparr>f_tags := None\<rparr>) m"
  by (auto simp: filter_keep_def list_ex_iff)

lemma filterMemories_tags:
  "filterMemories mems (filters\<lparr>f_tags := Some ts\<rparr>) =
     filter (\<lambda>m. \<exists>t \<in> set ts. t \<in> set (mem_tags m))
       (filterMemories mems (filters\<lparr>f_tags := None\<rparr>))"
  unfolding filterMemories_def filter_filter
  by (rule filter_cong) (auto simp: filter_keep_tags)

lemma filterMemories_empty_tags:
  "f_tags filters = Some [] \<Longrightarrow> filterMemories mems filters = []"
  by (simp add: filterMemories_def filter_keep_def)

lemma recall_matches_subset: "set (recall_matches args mems) \<subseteq> set mems"
  by (auto simp: recall_matches_def filterMemories_def searchMemories_def split: option.splits)

lemma erase_matches_filter:
  "erase_matches args mems = filter (\<lambda>m. m \<in> set (erase_matches args mems)) mems"
  by (auto simp: erase_matches_def filterMemories_def searchMemories_def
           intro!: filter_cong split: option.splits)

lemma erase_matches_confirm:
  "erase_matches (args\<lparr>erase_confirm := c\<rparr>) mems = erase_matches args mems"
  by (simp add: erase_matches_def)

lemma bulk_removed_count:
  assumes "distinct (map mem_id mems)"
  shows "length (filter (\<lambda>m. mem_id m \<notin> mem_id ` set (erase_matches args mems)) mems) +
           length (erase_matches args mems) = length mems"
proof -
  let ?P = "\<lambda>m. m \<in> set (erase_matches args mems)"
  have e: "erase_matches args mems = filter ?P mems"
    by (rule erase_matches_filter)
  have "filter (\<lambda>m. mem_id m \<notin> set (map mem_id (filter ?P mems))) mems =
          filter (\<lambda>m. \<not> ?P m) mems"
    using assms by (rule filter_out_ids)
  then have "filter (\<lambda>m. mem_id m \<notin> set (map mem_id (erase_matches args mems))) mems =
          filter (\<lambda>m. \<not> ?P m) mems"
    using e by simp
  moreover have "length (filter (\<lambda>m. \<not> ?P m) mems) + length (filter ?P mems) = length mems"
    using sum_length_filter_compl [of ?P mems] by simp
  ultimately show ?thesis using e by (simp del: set_filter)
qed

subsection \<open>Sorting\<close>

lemma sort_insert_insort:
  assumes "\<forall>m \<in> set (x # ys). getTime (mem_timestamp m) = Some (t m)"
  shows "sort_insert (by_timestamp getTime) x ys = insort_key (\<lambda>m. - t m) x ys"
  using assms by (induction ys) (auto simp: comes_after_def by_timestamp_def)

lemma array_sort_sort_key:
  assumes "\<forall>m \<in> set xs. getTime (mem_timestamp m) = Some (t m)"
  shows "array_sort (by_timestamp getTime) xs = sort_key (\<lambda>m. - t m) xs"
  using assms
proof (induction xs)
  case Nil
  then show ?case by simp
next
  case (Cons x xs)
  then have "array_sort (by_timestamp getTime) xs = sort_key (\<lambda>m. - t m) xs" by simp
  moreover have "\<forall>m \<in> set (x # sort_key (\<lambda>m. - t m) xs). getTime (mem_timestamp m) = Some (t m)"
    using Cons.prems by simp
  ultimately show ?case
    by (simp add: sort_insert_insort [where t = t])
qed

lemma two_matches_first:
  assumes "mset ys = {#a, b#}" "sorted_wrt (\<lambda>x y. t y \<le> t x) ys" "t b < (t a :: int)"
  shows "take 1 ys = [a]"
proof -
  from assms(1) have "length ys = 2"
    by (metis size_mset size_add_mset size_empty numeral_2_eq_2)
  then obtain x y where ys: "ys = [x, y]"
    by (cases ys; cases "tl ys") auto
  with assms(1) have "(x = a \<and> y = b) \<or> (x = b \<and> y = a)"
    by (auto simp: add_eq_conv_ex)
  with assms(2,3) ys show ?thesis by auto
qed

subsection \<open>The limit outside the advertised range\<close>

text \<open>
  \<open>args.limit || 10\<close> turns a limit of zero into ten, and a limit above 100 is used as
  it is.
\<close>

lemma recall_limit_zero: "recall_limit_or_default (args\<lparr>recall_limit := Some 0\<rparr>) = 10"
  by (simp add: recall_limit_or_default_def)

lemma recall_limit_large:
  "100 < l \<Longrightarrow> slice0 xs (recall_limit_or_default (args\<lparr>recall_limit := Some l\<rparr>)) =
     take (nat \<lfloor>l\<rfloor>) xs"
  by (simp add: recall_limit_or_default_def slice0_take)

section \<open>The claims\<close>

text \<open>
  C1. A bulk \<open>erase\<close> (no id, or an empty one) whose \<open>confirm\<close> is absent or false returns
  the file as it was, and its preview has as many records as the same call with
  \<open>confirm = true\<close> reports as deleted; when the ids of the store are distinct, as the data
  model requires, that is also the number of records the confirmed call takes out of the
  collection.
\<close>

theorem bulk_erase_preview_count:
  assumes "\<not> truthy (erase_id args)" and "\<not> confirmed (erase_confirm args)"
  shows "\<exists>preview n after.
           handleErase env args file = (Inr (Preview preview), file) \<and>
           preview = erase_matches args (memories (loadMemories env file)) \<and>
           handleErase env (args\<lparr>erase_confirm := Some True\<rparr>) file =
             (Inr (DeletedBulk n), Document after) \<and>
           n = length preview \<and>
           (distinct (map mem_id (memories (loadMemories env file))) \<longrightarrow>
              length (memories after) + length preview =
                length (memories (loadMemories env file)))"
  using assms
  by (simp add: handleErase_def Let_def confirmed_def saveMemories_def erase_matches_confirm
        bulk_removed_count)

theorem bulk_erase_preview_count_witness:
  "\<not> truthy (erase_id (erase_nothing\<lparr>erase_query := Some ''typescript''\<rparr>)) \<and>
   \<not> confirmed (erase_confirm (erase_nothing\<lparr>erase_query := Some ''typescript''\<rparr>)) \<and>
   distinct (map mem_id (memories (loadMemories example_env (Document example_storage)))) \<and>
   (\<exists>preview n after.
      handleErase example_env (erase_nothing\<lparr>erase_query := Some ''typescript''\<rparr>)
        (Document example_storage) = (Inr (Preview preview), Document example_storage) \<and>
      handleErase example_env
        (erase_nothing\<lparr>erase_query := Some ''typescript'', erase_confirm := Some True\<rparr>)
        (Document example_storage) = (Inr (DeletedBulk n), Document after) \<and>
      n = length preview \<and>
      length (memories after) + length preview = 2)"
proof -
  have h1: "\<not> truthy (erase_id (erase_nothing\<lparr>erase_query := Some ''typescript''\<rparr>))"
    by (simp add: erase_nothing_def truthy_def)
  have h2: "\<not> confirmed (erase_confirm (erase_nothing\<lparr>erase_query := Some ''typescript''\<rparr>))"
    by (simp add: erase_nothing_def confirmed_def)
  have d: "distinct (map mem_id (memories (loadMemories example_env (Document example_storage))))"
    by (simp add: loadMemories_def example_storage_def example_a_def example_b_def)
  have l: "length (memories (loadMemories example_env (Document example_storage))) = 2"
    by (simp add: loadMemories_def example_storage_def)
  show ?thesis
    using bulk_erase_preview_count [OF h1 h2, of example_env "Document example_storage"] h1 h2 d l
    by simp
qed

text \<open>
  C2. A bulk \<open>erase\<close> that supplies no id, no query, no tags and no session id, with
  \<open>confirm = true\<close>, selects every record: it reports the length of the collection as
  deleted and saves a document whose \<open>memories\<close> is empty.
\<close>

theorem erase_everything:
  "erase_matches
     \<lparr>erase_id = None, erase_query = None, erase_tags = None, erase_session_id = None,
      erase_confirm = Some True\<rparr> mems = mems \<and>
   handleErase env
     \<lparr>erase_id = None, erase_query = None, erase_tags = None, erase_session_id = None,
      erase_confirm = Some True\<rparr> file =
     (Inr (DeletedBulk (length (memories (loadMemories env file)))),
      Document ((loadMemories env file)\<lparr>memories := [], last_updated := clock_save env\<rparr>))"
  by (simp add: handleErase_def Let_def erase_matches_def confirmed_def saveMemories_def
        truthy_def filterMemories_def filter_keep_def)

theorem erase_everything_witness:
  "handleErase example_env
     \<lparr>erase_id = None, erase_query = None, erase_tags = None, erase_session_id = None,
      erase_confirm = Some True\<rparr> (Document example_storage) =
     (Inr (DeletedBulk 2),
      Document \<lparr>memories = [], version = ''1.0.0'', last_updated = ''2024-07-01T00:00:00.002Z''\<rparr>)"
  using erase_everything [of "[]" example_env "Document example_storage"]
  by (simp add: loadMemories_def example_storage_def example_env_def)

text \<open>
  C4. \<open>modify\<close> fails with the not-found error, and leaves the file alone, when no record
  has the id. Otherwise it changes the first record with that id (the only one, ids being
  unique): each of content, tags, context, importance and type takes the supplied value
  when one is supplied and keeps its old value when none is; id, timestamp and session
  id are kept; every other record stays in place; the document is saved.
\<close>

theorem modify_replaces_supplied_fields_only:
  "((\<forall>m \<in> set (memories (loadMemories env file)). mem_id m \<noteq> modify_id args) \<longrightarrow>
      handleModify env args file = (Inl (not_found (modify_id args)), file)) \<and>
   ((\<exists>m \<in> set (memories (loadMemories env file)). mem_id m = modify_id args) \<longrightarrow>
      (\<exists>k before after.
         k < length (memories (loadMemories env file)) \<and>
         before = memories (loadMemories env file) ! k \<and>
         mem_id before = modify_id args \<and>
         (\<forall>j < k. mem_id (memories (loadMemories env file) ! j) \<noteq> modify_id args) \<and>
         handleModify env args file =
           (Inr (Updated before after),
            Document ((loadMemories env file)
              \<lparr>memories := (memories (loadMemories env file))[k := after],
               last_updated := clock_save env\<rparr>)) \<and>
         mem_content after =
           (case modify_content args of None \<Rightarrow> mem_content before | Some c \<Rightarrow> c) \<and>
         mem_tags after = (case modify_tags args of None \<Rightarrow> mem_tags before | Some ts \<Rightarrow> ts) \<and>
         mem_context after =
           (case modify_context args of None \<Rightarrow> mem_context before | Some c \<Rightarrow> c) \<and>
         mem_importance after =
           (case modify_importance args of None \<Rightarrow> mem_importance before | Some i \<Rightarrow> i) \<and>
         mem_type after = (case modify_type args of None \<Rightarrow> mem_type before | Some t \<Rightarrow> t) \<and>
         mem_id after = mem_id before \<and>
         mem_timestamp after = mem_timestamp before \<and>
         mem_session_id after = mem_session_id before))"
  (is "(?none \<longrightarrow> ?A) \<and> (?some \<longrightarrow> ?B)")
proof (cases "findIndex (\<lambda>m. mem_id m = modify_id args) (memories (loadMemories env file))")
  case None
  then have none: ?none by (simp add: findIndex_None)
  from None have ?A by (simp add: handleModify_def Let_def)
  with none show ?thesis by blast
next
  case (Some k)
  then have k: "k < length (memories (loadMemories env file))"
    "mem_id (memories (loadMemories env file) ! k) = modify_id args"
    "\<forall>j < k. mem_id (memories (loadMemories env file) ! j) \<noteq> modify_id args"
    by (simp_all add: findIndex_Some)
  from k(1,2) have some: ?some using nth_mem by blast
  have h: "handleModify env args file =
      (Inr (Updated (memories (loadMemories env file) ! k)
             (modify_fields args (memories (loadMemories env file) ! k))),
       Document ((loadMemories env file)
         \<lparr>memories := (memories (loadMemories env file))
            [k := modify_fields args (memories (loadMemories env file) ! k)],
          last_updated := clock_save env\<rparr>))"
    using Some by (simp add: handleModify_def Let_def saveMemories_def)
  have ?B
    using k h
    by (intro exI [of _ k] exI [of _ "memories (loadMemories env file) ! k"]
          exI [of _ "modify_fields args (memories (loadMemories env file) ! k)"])
       (simp add: modify_fields_def Let_def split: option.splits)
  with some show ?thesis by blast
qed

text \<open>
  On the small store, changing only the content of the second record keeps everything
  else, and an unknown id is an error that leaves the file as it was.
\<close>

theorem modify_replaces_supplied_fields_only_witness:
  "(\<exists>m \<in> set (memories (loadMemories example_env (Document example_storage))). mem_id m = ''id-b'') \<and>
   handleModify example_env
     \<lparr>modify_id = ''id-b'', modify_content = Some ''Y prefers cats'', modify_tags = None,
      modify_context = None, modify_importance = None, modify_type = None\<rparr>
     (Document example_storage) =
     (Inr (Updated example_b (example_b\<lparr>mem_content := ''Y prefers cats''\<rparr>)),
      Document \<lparr>memories = [example_a, example_b\<lparr>mem_content := ''Y prefers cats''\<rparr>],
                version = ''1.0.0'', last_updated = ''2024-07-01T00:00:00.002Z''\<rparr>) \<and>
   ''id-z'' \<notin> mem_id ` set (memories (loadMemories example_env (Document example_storage))) \<and>
   handleModify example_env
     \<lparr>modify_id = ''id-z'', modify_content = Some ''Y prefers cats'', modify_tags = None,
      modify_context = None, modify_importance = None, modify_type = None\<rparr>
     (Document example_storage) = (Inl (not_found ''id-z''), Document example_storage)"
proof -
  let ?mems = "memories (loadMemories example_env (Document example_storage))"
  let ?b = "\<lparr>modify_id = ''id-b'', modify_content = Some ''Y prefers cats'', modify_tags = None,
      modify_context = None, modify_importance = None, modify_type = None\<rparr>"
  let ?z = "\<lparr>modify_id = ''id-z'', modify_content = Some ''Y prefers cats'', modify_tags = None,
      modify_context = None, modify_importance = None, modify_type = None\<rparr>"
  have mems: "?mems = [example_a, example_b]"
    by (simp add: loadMemories_def example_storage_def)
  have ids: "mem_id example_a = ''id-a''" "mem_id example_b = ''id-b''"
    by (simp_all add: example_a_def example_b_def)
  have some: "\<exists>m \<in> set ?mems. mem_id m = modify_id ?b" by (simp add: mems ids)
  have none: "\<forall>m \<in> set ?mems. mem_id m \<noteq> modify_id ?z" by (simp add: mems ids)
  note thm_b = modify_replaces_supplied_fields_only [of example_env "Document example_storage" ?b]
  from thm_b some obtain k before after where
    k: "k < length ?mems" "before = ?mems ! k" "mem_id before = modify_id ?b"
    and h: "handleModify example_env ?b (Document example_storage) =
        (Inr (Updated before after),
         Document ((loadMemories example_env (Document example_storage))
           \<lparr>memories := ?mems[k := after], last_updated := clock_save example_env\<rparr>))"
    and f: "mem_content after = (case modify_content ?b of None \<Rightarrow> mem_content before | Some c \<Rightarrow> c)"
      "mem_tags after = (case modify_tags ?b of None \<Rightarrow> mem_tags before | Some ts \<Rightarrow> ts)"
      "mem_context after = (case modify_context ?b of None \<Rightarrow> mem_context before | Some c \<Rightarrow> c)"
      "mem_importance after = (case modify_importance ?b of None \<Rightarrow> mem_importance before | Some i \<Rightarrow> i)"
      "mem_type after = (case modify_type ?b of None \<Rightarrow> mem_type before | Some t \<Rightarrow> t)"
      "mem_id after = mem_id before" "mem_timestamp after = mem_timestamp before"
      "mem_session_id after = mem_session_id before"
    by blast
  from k have k1: "k = 1"
    by (cases k) (auto simp: mems ids)
  with k have before: "before = example_b" by (simp add: mems)
  have after: "after = example_b\<lparr>mem_content := ''Y prefers cats''\<rparr>"
    using f by (intro Memory.equality) (simp_all add: before)
  have r1: "handleModify example_env ?b (Document example_storage) =
     (Inr (Updated example_b (example_b\<lparr>mem_content := ''Y prefers cats''\<rparr>)),
      Document \<lparr>memories = [example_a, example_b\<lparr>mem_content := ''Y prefers cats''\<rparr>],
                version = ''1.0.0'', last_updated = ''2024-07-01T00:00:00.002Z''\<rparr>)"
    unfolding h before after k1 mems
    by (simp add: loadMemories_def example_storage_def example_env_def)
  have r2: "handleModify example_env ?z (Document example_storage) =
      (Inl (not_found ''id-z''), Document example_storage)"
    using none modify_replaces_supplied_fields_only [of example_env "Document example_storage" ?z]
    by simp
  have none': "''id-z'' \<notin> mem_id ` set ?mems" by (simp add: mems ids)
  from some have some': "\<exists>m \<in> set ?mems. mem_id m = ''id-b''" by simp
  show ?thesis using some' none' r1 r2 by blast
qed



text \<open>
  C7. The tag filter is "match any". With a tags filter \<open>ts\<close>, empty or not, a record
  passes \<open>filterMemories\<close> exactly when it has one of the tags in \<open>ts\<close> and passes the
  other filters; so the records \<open>recall\<close> matches, and those a bulk \<open>erase\<close> selects, are
  the ones matched without the tags filter that have one of the requested tags.
\<close>

theorem tag_filter_matches_any:
  "(filter_keep (filters\<lparr>f_tags := Some ts\<rparr>) m \<longleftrightarrow>
      (\<exists>t \<in> set ts. t \<in> set (mem_tags m)) \<and> filter_keep (filters\<lparr>f_tags := None\<rparr>) m) \<and>
   recall_matches (rargs\<lparr>recall_tags := Some ts\<rparr>) mems =
     filter (\<lambda>m. \<exists>t \<in> set ts. t \<in> set (mem_tags m))
       (recall_matches (rargs\<lparr>recall_tags := None\<rparr>) mems) \<and>
   erase_matches (eargs\<lparr>erase_tags := Some ts\<rparr>) mems =
     filter (\<lambda>m. \<exists>t \<in> set ts. t \<in> set (mem_tags m))
       (erase_matches (eargs\<lparr>erase_tags := None\<rparr>) mems)"
proof (intro conjI)
  show "filter_keep (filters\<lparr>f_tags := Some ts\<rparr>) m \<longleftrightarrow>
      (\<exists>t \<in> set ts. t \<in> set (mem_tags m)) \<and> filter_keep (filters\<lparr>f_tags := None\<rparr>) m"
    by (rule filter_keep_tags)
next
  let ?f = "\<lparr>f_tags = None, f_session_id = recall_session_id rargs,
             f_importance = recall_importance rargs, f_type = recall_type rargs\<rparr>"
  have "filterMemories xs (?f\<lparr>f_tags := Some ts\<rparr>) =
          filter (\<lambda>m. \<exists>t \<in> set ts. t \<in> set (mem_tags m)) (filterMemories xs (?f\<lparr>f_tags := None\<rparr>))"
    for xs by (rule filterMemories_tags)
  then show "recall_matches (rargs\<lparr>recall_tags := Some ts\<rparr>) mems =
     filter (\<lambda>m. \<exists>t \<in> set ts. t \<in> set (mem_tags m))
       (recall_matches (rargs\<lparr>recall_tags := None\<rparr>) mems)"
    by (simp add: recall_matches_def)
next
  let ?f = "\<lparr>f_tags = None, f_session_id = erase_session_id eargs,
             f_importance = None, f_type = None\<rparr>"
  have "filterMemories xs (?f\<lparr>f_tags := Some ts\<rparr>) =
          filter (\<lambda>m. \<exists>t \<in> set ts. t \<in> set (mem_tags m)) (filterMemories xs (?f\<lparr>f_tags := None\<rparr>))"
    for xs by (rule filterMemories_tags)
  then show "erase_matches (eargs\<lparr>erase_tags := Some ts\<rparr>) mems =
     filter (\<lambda>m. \<exists>t \<in> set ts. t \<in> set (mem_tags m))
       (erase_matches (eargs\<lparr>erase_tags := None\<rparr>) mems)"
    by (simp add: erase_matches_def)
qed

text \<open>The record with tags \<open>a\<close> and \<open>b\<close> is found by the tags filter \<open>b\<close>, \<open>z\<close>.\<close>

theorem tag_filter_matches_any_witness:
  "mem_tags example_a = [''a'', ''b''] \<and>
   recall_matches (recall_nothing\<lparr>recall_tags := Some [''b'', ''z'']\<rparr>) [example_a, example_b] =
     [example_a] \<and>
   erase_matches (erase_nothing\<lparr>erase_tags := Some [''b'', ''z'']\<rparr>) [example_a, example_b] =
     [example_a]"
proof -
  have r: "recall_matches (recall_nothing\<lparr>recall_tags := None\<rparr>) [example_a, example_b] =
      [example_a, example_b]"
    by (simp add: recall_matches_def recall_nothing_def truthy_def filterMemories_def
          filter_keep_def)
  have e: "erase_matches (erase_nothing\<lparr>erase_tags := None\<rparr>) [example_a, example_b] =
      [example_a, example_b]"
    by (simp add: erase_matches_def erase_nothing_def truthy_def filterMemories_def
          filter_keep_def)
  have t: "mem_tags example_a = [''a'', ''b'']" "mem_tags example_b = [''pref'']"
    by (simp_all add: example_a_def example_b_def)
  show ?thesis
    using tag_filter_matches_any [where ts = "[''b'', ''z'']" and rargs = recall_nothing
        and eargs = erase_nothing and mems = "[example_a, example_b]" and m = example_a
        and filters = "\<lparr>f_tags = None, f_session_id = None, f_importance = None,
          f_type = None\<rparr>"] r e t
    by simp
qed

text \<open>
  C9. A tags filter that is present and empty lets no record through: \<open>filterMemories\<close>
  returns the empty list, \<open>recall\<close> finds nothing, and a confirmed bulk \<open>erase\<close> reports
  zero deletions and saves the collection as it was loaded.
\<close>

theorem empty_tags_match_nothing:
  "filterMemories mems (filters\<lparr>f_tags := Some []\<rparr>) = [] \<and>
   handleRecall getTime env (rargs\<lparr>recall_tags := Some []\<rparr>) file = (Inr (Found []), file) \<and>
   (\<not> truthy (erase_id eargs) \<longrightarrow>
      handleErase env (eargs\<lparr>erase_tags := Some [], erase_confirm := Some True\<rparr>) file =
        (Inr (DeletedBulk 0),
         Document ((loadMemories env file)\<lparr>last_updated := clock_save env\<rparr>)))"
  by (simp add: handleRecall_def handleErase_def Let_def recall_matches_def erase_matches_def
        filterMemories_empty_tags slice0_Nil confirmed_def saveMemories_def)

theorem empty_tags_match_nothing_witness:
  "\<not> truthy (erase_id erase_nothing) \<and>
   handleRecall example_getTime example_env (recall_nothing\<lparr>recall_tags := Some []\<rparr>)
     (Document example_storage) = (Inr (Found []), Document example_storage) \<and>
   handleErase example_env (erase_nothing\<lparr>erase_tags := Some [], erase_confirm := Some True\<rparr>)
     (Document example_storage) =
     (Inr (DeletedBulk 0),
      Document (example_storage\<lparr>last_updated := ''2024-07-01T00:00:00.002Z''\<rparr>))"
proof -
  have h: "\<not> truthy (erase_id erase_nothing)"
    by (simp add: erase_nothing_def truthy_def)
  show ?thesis
    using h empty_tags_match_nothing [where getTime = example_getTime and env = example_env
        and rargs = recall_nothing and eargs = erase_nothing
        and ?file = "Document example_storage" and mems = "[example_a, example_b]"
        and filters = "\<lparr>f_tags = None, f_session_id = None, f_importance = None,
          f_type = None\<rparr>"]
    by (simp add: loadMemories_def example_env_def)
qed

text \<open>
  C10. When \<open>erase\<close> is given a non-empty id it deletes by id, whatever the query, tags,
  session id and \<open>confirm\<close> are: the outcome is the not-found error when no record has
  the id and otherwise the document without the records of that id, and is the same for
  every value of the four other arguments.
\<close>

theorem erase_with_id_ignores_other_arguments:
  assumes "i \<noteq> []"
  shows "handleErase env
           \<lparr>erase_id = Some i, erase_query = q, erase_tags = ts, erase_session_id = s,
            erase_confirm = c\<rparr> file =
         (if \<forall>m \<in> set (memories (loadMemories env file)). mem_id m \<noteq> i
          then (Inl (not_found i), file)
          else (Inr (Deleted i),
                Document ((loadMemories env file)
                  \<lparr>memories := filter (\<lambda>m. mem_id m \<noteq> i) (memories (loadMemories env file)),
                   last_updated := clock_save env\<rparr>)))"
  using assms
  by (simp add: handleErase_def Let_def saveMemories_def truthy_def length_filter_eq_iff)

text \<open>
  Deleting the first record by id with a query that matches nothing, a tags filter that
  matches nothing and no confirmation.
\<close>

theorem erase_with_id_ignores_other_arguments_witness:
  "''id-a'' \<noteq> [] \<and>
   handleErase example_env
     \<lparr>erase_id = Some ''id-a'', erase_query = Some ''zzz'', erase_tags = Some [],
      erase_session_id = Some ''other'', erase_confirm = None\<rparr> (Document example_storage) =
     (Inr (Deleted ''id-a''),
      Document \<lparr>memories = [example_b], version = ''1.0.0'',
                last_updated = ''2024-07-01T00:00:00.002Z''\<rparr>)"
proof -
  have h: "''id-a'' \<noteq> []" by simp
  show ?thesis
    using erase_with_id_ignores_other_arguments [OF h, of example_env "Some ''zzz''" "Some []"
        "Some ''other''" None "Document example_storage"]
    by (simp add: loadMemories_def example_storage_def example_env_def example_a_def
          example_b_def)
qed

text \<open>
  C3. Let every timestamp of the store be a date, \<open>t m\<close> being the time of record \<open>m\<close>, and
  let the limit be absent (then \<open>n = 10\<close>) or a number \<open>l\<close> from 1 to 100 (then \<open>n\<close> is \<open>l\<close>
  without its fraction). \<open>recall\<close> leaves the file alone and returns the first \<open>n\<close> records
  of the matching records sorted, stably, by descending time: the result is sorted by
  descending time, has \<open>n\<close> records or all matches when there are fewer, consists of
  matching records, and no matching record left out is more recent than a returned one.
  With \<open>n = 1\<close> and two matches of different times the result is the more recent one.
\<close>

theorem recall_sorted_and_limited:
  assumes dates:
      "\<forall>m \<in> set (memories (loadMemories env file)). getTime (mem_timestamp m) = Some (t m)"
    and lim: "recall_limit args = None \<and> n = 10 \<or>
              (\<exists>l. recall_limit args = Some l \<and> 1 \<le> l \<and> l \<le> 100 \<and> n = nat \<lfloor>l\<rfloor>)"
  shows "\<exists>found rest.
     handleRecall getTime env args file = (Inr (Found found), file) \<and>
     found = take n (sort_key (\<lambda>m. - t m)
               (recall_matches args (memories (loadMemories env file)))) \<and>
     sorted_wrt (\<lambda>a b. t b \<le> t a) found \<and>
     length found = min n (length (recall_matches args (memories (loadMemories env file)))) \<and>
     mset (recall_matches args (memories (loadMemories env file))) = mset found + mset rest \<and>
     (\<forall>a \<in> set found. \<forall>b \<in> set rest. t b \<le> t a) \<and>
     (\<forall>a b. n = 1 \<and>
            mset (recall_matches args (memories (loadMemories env file))) = {#a, b#} \<and>
            t b < t a \<longrightarrow> found = [a])"
proof -
  define matches where "matches = recall_matches args (memories (loadMemories env file))"
  define ys where "ys = sort_key (\<lambda>m. - t m) matches"
  have "\<forall>m \<in> set matches. getTime (mem_timestamp m) = Some (t m)"
    using dates recall_matches_subset [of args "memories (loadMemories env file)"]
    by (auto simp: matches_def)
  then have sort: "array_sort (by_timestamp getTime) matches = ys"
    unfolding ys_def by (rule array_sort_sort_key)
  have slice: "slice0 ys (recall_limit_or_default args) = take n ys"
    using lim by (auto simp: recall_limit_or_default_def slice0_take)
  have res: "handleRecall getTime env args file = (Inr (Found (take n ys)), file)"
    by (simp add: handleRecall_def Let_def matches_def [symmetric] sort slice)
  have sorted_ys: "sorted_wrt (\<lambda>a b. t b \<le> t a) ys"
    using sorted_sort_key [of "\<lambda>m. - t m" matches] by (simp add: ys_def sorted_map)
  then have "sorted_wrt (\<lambda>a b. t b \<le> t a) (take n ys @ drop n ys)" by simp
  then have split: "sorted_wrt (\<lambda>a b. t b \<le> t a) (take n ys)"
      "\<forall>a \<in> set (take n ys). \<forall>b \<in> set (drop n ys). t b \<le> t a"
    unfolding sorted_wrt_append by blast+
  have ms: "mset matches = mset (take n ys) + mset (drop n ys)"
    by (simp add: ys_def flip: mset_append)
  have len: "length (take n ys) = min n (length matches)"
    by (simp add: ys_def min.commute)
  have "take n ys = [a]" if "n = 1" "mset matches = {#a, b#}" "t b < t a" for a b
  proof -
    from that(2) have "mset ys = {#a, b#}" by (simp add: ys_def)
    then show ?thesis using sorted_ys that(1,3) two_matches_first [of ys a b t] by simp
  qed
  then have two:
    "\<forall>a b. n = 1 \<and> mset matches = {#a, b#} \<and> t b < t a \<longrightarrow> take n ys = [a]"
    by blast
  show ?thesis
    unfolding matches_def [symmetric] ys_def [symmetric]
    by (rule exI [of _ "take n ys"], rule exI [of _ "drop n ys"])
       (intro conjI res refl split len ms two)
qed

text \<open>
  Both records of the small store match the query \<open>PREFERS\<close>; with the limit 1 the
  record of June is returned, not the one of January that comes first in the file.
\<close>

theorem recall_sorted_and_limited_witness:
  "memories (loadMemories example_env (Document example_storage)) = [example_a, example_b] \<and>
   example_getTime (mem_timestamp example_a) = Some (example_time example_a) \<and>
   example_getTime (mem_timestamp example_b) = Some (example_time example_b) \<and>
   example_time example_a < example_time example_b \<and>
   recall_limit (recall_nothing\<lparr>recall_query := Some ''PREFERS'', recall_limit := Some 1\<rparr>) =
     Some 1 \<and>
   handleRecall example_getTime example_env
     (recall_nothing\<lparr>recall_query := Some ''PREFERS'', recall_limit := Some 1\<rparr>)
     (Document example_storage) = (Inr (Found [example_b]), Document example_storage)"
proof -
  let ?args = "recall_nothing\<lparr>recall_query := Some ''PREFERS'', recall_limit := Some 1\<rparr>"
  let ?mems = "memories (loadMemories example_env (Document example_storage))"
  have mems: "?mems = [example_a, example_b]"
    by (simp add: loadMemories_def example_storage_def)
  have times: "example_time example_a = 1704067200000" "example_time example_b = 1717200000000"
      "example_getTime (mem_timestamp example_a) = Some 1704067200000"
      "example_getTime (mem_timestamp example_b) = Some 1717200000000"
    by (simp_all add: example_time_def example_getTime_def example_a_def example_b_def)
  have dates: "\<forall>m \<in> set ?mems. example_getTime (mem_timestamp m) = Some (example_time m)"
    by (simp add: mems times)
  have lim: "recall_limit ?args = None \<and> (1::nat) = 10 \<or>
      (\<exists>l. recall_limit ?args = Some l \<and> 1 \<le> l \<and> l \<le> 100 \<and> (1::nat) = nat \<lfloor>l\<rfloor>)"
    by simp
  have m: "recall_matches ?args [example_a, example_b] = [example_a, example_b]"
    by code_simp
  from recall_sorted_and_limited [OF dates lim] obtain found where
    res: "handleRecall example_getTime example_env ?args (Document example_storage) =
            (Inr (Found found), Document example_storage)"
    and two: "\<forall>a b. (1::nat) = 1 \<and> mset (recall_matches ?args ?mems) = {#a, b#} \<and>
            example_time b < example_time a \<longrightarrow> found = [a]"
    by blast
  have "mset (recall_matches ?args ?mems) = {#example_b, example_a#}"
    by (simp add: mems m)
  with two have "found = [example_b]" by (simp add: times)
  with res mems show ?thesis by (simp add: times)
qed

text \<open>
  C6, as stated, fails for the empty id: \<open>if (args.id)\<close> reads an empty string as no id and
  takes the bulk path. On the small store, where no record has the empty id, \<open>erase\<close> with
  the empty id and \<open>confirm = true\<close> is not an error; it deletes both records.
\<close>

theorem erase_empty_id_counterexample:
  "[] \<notin> mem_id ` set (memories (loadMemories example_env (Document example_storage))) \<and>
   handleErase example_env
     \<lparr>erase_id = Some [], erase_query = None, erase_tags = None, erase_session_id = None,
      erase_confirm = Some True\<rparr> (Document example_storage) =
     (Inr (DeletedBulk 2),
      Document \<lparr>memories = [], version = ''1.0.0'', last_updated = ''2024-07-01T00:00:00.002Z''\<rparr>) \<and>
   handleErase example_env
     \<lparr>erase_id = Some [], erase_query = None, erase_tags = None, erase_session_id = None,
      erase_confirm = Some True\<rparr> (Document example_storage) \<noteq>
     (Inl (not_found []), Document example_storage)"
  by (simp add: handleErase_def Let_def truthy_def confirmed_def erase_matches_def
        filterMemories_def filter_keep_def saveMemories_def loadMemories_def
        example_storage_def example_env_def example_a_def example_b_def)

text \<open>
  C6, amended: for a non-empty id. When no record has the id, \<open>erase\<close> fails with the
  not-found error and returns the file as it was. When a record has it, \<open>erase\<close> saves
  the collection without the records of that id; the ids being distinct, that is the
  collection with exactly one record taken out and the others in their order.
\<close>

theorem erase_by_id:
  assumes "i \<noteq> []" and "erase_id args = Some i"
  shows
    "((\<forall>m \<in> set (memories (loadMemories env file)). mem_id m \<noteq> i) \<longrightarrow>
        handleErase env args file = (Inl (not_found i), file)) \<and>
     ((\<exists>m \<in> set (memories (loadMemories env file)). mem_id m = i) \<longrightarrow>
        handleErase env args file =
          (Inr (Deleted i),
           Document ((loadMemories env file)
             \<lparr>memories := filter (\<lambda>m. mem_id m \<noteq> i) (memories (loadMemories env file)),
              last_updated := clock_save env\<rparr>)) \<and>
        (distinct (map mem_id (memories (loadMemories env file))) \<longrightarrow>
           (\<exists>ps x ss. memories (loadMemories env file) = ps @ x # ss \<and> mem_id x = i \<and>
              filter (\<lambda>m. mem_id m \<noteq> i) (memories (loadMemories env file)) = ps @ ss)))"
proof (intro conjI impI)
  assume "\<forall>m \<in> set (memories (loadMemories env file)). mem_id m \<noteq> i"
  with assms show "handleErase env args file = (Inl (not_found i), file)"
    by (simp add: handleErase_def Let_def truthy_def length_filter_eq_iff)
next
  assume "\<exists>m \<in> set (memories (loadMemories env file)). mem_id m = i"
  with assms show "handleErase env args file =
      (Inr (Deleted i),
       Document ((loadMemories env file)
         \<lparr>memories := filter (\<lambda>m. mem_id m \<noteq> i) (memories (loadMemories env file)),
          last_updated := clock_save env\<rparr>))"
    by (simp add: handleErase_def Let_def truthy_def length_filter_eq_iff saveMemories_def)
next
  assume "\<exists>m \<in> set (memories (loadMemories env file)). mem_id m = i"
    and d: "distinct (map mem_id (memories (loadMemories env file)))"
  then obtain x where x: "x \<in> set (memories (loadMemories env file))" "mem_id x = i"
    by blast
  from remove_one [OF d x(1)] x(2)
  show "\<exists>ps x ss. memories (loadMemories env file) = ps @ x # ss \<and> mem_id x = i \<and>
      filter (\<lambda>m. mem_id m \<noteq> i) (memories (loadMemories env file)) = ps @ ss"
    by blast
qed

theorem erase_by_id_witness:
  "''id-b'' \<noteq> [] \<and>
   ''id-z'' \<notin> mem_id ` set (memories (loadMemories example_env (Document example_storage))) \<and>
   handleErase example_env (erase_nothing\<lparr>erase_id := Some ''id-z''\<rparr>) (Document example_storage) =
     (Inl (not_found ''id-z''), Document example_storage) \<and>
   (\<exists>m \<in> set (memories (loadMemories example_env (Document example_storage))).
      mem_id m = ''id-b'') \<and>
   distinct (map mem_id (memories (loadMemories example_env (Document example_storage)))) \<and>
   handleErase example_env (erase_nothing\<lparr>erase_id := Some ''id-b''\<rparr>) (Document example_storage) =
     (Inr (Deleted ''id-b''),
      Document \<lparr>memories = [example_a], version = ''1.0.0'',
                last_updated = ''2024-07-01T00:00:00.002Z''\<rparr>)"
proof -
  let ?mems = "memories (loadMemories example_env (Document example_storage))"
  have mems: "?mems = [example_a, example_b]"
    by (simp add: loadMemories_def example_storage_def)
  have ids: "mem_id example_a = ''id-a''" "mem_id example_b = ''id-b''"
    by (simp_all add: example_a_def example_b_def)
  have none: "\<forall>m \<in> set ?mems. mem_id m \<noteq> ''id-z''" by (simp add: mems ids)
  have some: "\<exists>m \<in> set ?mems. mem_id m = ''id-b''" by (simp add: mems ids)
  have d: "distinct (map mem_id ?mems)" by (simp add: mems ids)
  have z: "''id-z'' \<noteq> []" and b: "''id-b'' \<noteq> []" by simp_all
  have iz: "erase_id (erase_nothing\<lparr>erase_id := Some ''id-z''\<rparr>) = Some ''id-z''"
    and ib: "erase_id (erase_nothing\<lparr>erase_id := Some ''id-b''\<rparr>) = Some ''id-b''"
    by simp_all
  have r1: "handleErase example_env (erase_nothing\<lparr>erase_id := Some ''id-z''\<rparr>)
      (Document example_storage) = (Inl (not_found ''id-z''), Document example_storage)"
    using erase_by_id [OF z iz, of example_env "Document example_storage"] none by blast
  have "handleErase example_env (erase_nothing\<lparr>erase_id := Some ''id-b''\<rparr>)
      (Document example_storage) =
      (Inr (Deleted ''id-b''),
       Document ((loadMemories example_env (Document example_storage))
         \<lparr>memories := filter (\<lambda>m. mem_id m \<noteq> ''id-b'') ?mems,
          last_updated := clock_save example_env\<rparr>))"
    using erase_by_id [OF b ib, of example_env "Document example_storage"] some by blast
  then have r2: "handleErase example_env (erase_nothing\<lparr>erase_id := Some ''id-b''\<rparr>)
      (Document example_storage) =
      (Inr (Deleted ''id-b''),
       Document \<lparr>memories = [example_a], version = ''1.0.0'',
                 last_updated = ''2024-07-01T00:00:00.002Z''\<rparr>)"
    by (simp add: mems ids) (simp add: loadMemories_def example_storage_def example_env_def)
  have none': "''id-z'' \<notin> mem_id ` set ?mems" by (simp add: mems ids)
  show ?thesis using b none' r1 some d r2 by blast
qed

text \<open>
  C8. When there is no file, or its text is not JSON, \<open>loadMemories\<close> returns the empty
  store. Every tool call then has the outcome it has on a file holding that empty store,
  and the file after the call is the one that call would leave, or the file as it was
  when the call saves nothing. In particular \<open>recall\<close> finds nothing and \<open>reflect\<close> saves
  a document with the new record alone; no call reports the failed load.
\<close>

theorem load_failure_is_empty_store:
  assumes "file = NoFile \<or> file = InvalidJson"
  shows
    "loadMemories env file =
       \<lparr>memories = [], version = ''1.0.0'', last_updated = clock_load env\<rparr> \<and>
     (\<forall>call.
        fst (callTool getTime env call file) =
          fst (callTool getTime env call (Document (loadMemories env file))) \<and>
        (snd (callTool getTime env call file) =
           snd (callTool getTime env call (Document (loadMemories env file))) \<or>
         snd (callTool getTime env call file) = file)) \<and>
     (\<forall>args. handleRecall getTime env args file = (Inr (Found []), file)) \<and>
     (\<forall>args. \<exists>m. handleReflect env args file =
        (Inr (Stored m),
         Document \<lparr>memories = [m], version = ''1.0.0'', last_updated = clock_save env\<rparr>))"
proof -
  have load: "loadMemories env file =
      \<lparr>memories = [], version = ''1.0.0'', last_updated = clock_load env\<rparr>"
    using assms by (auto simp: loadMemories_def)
  have again: "loadMemories env (Document (loadMemories env file)) = loadMemories env file"
    by (simp add: loadMemories_def)
  have calls: "fst (callTool getTime env call file) =
          fst (callTool getTime env call (Document (loadMemories env file))) \<and>
        (snd (callTool getTime env call file) =
           snd (callTool getTime env call (Document (loadMemories env file))) \<or>
         snd (callTool getTime env call file) = file)" for call
  proof (cases call)
    case (Reflect a)
    then show ?thesis by (simp add: handleReflect_def Let_def again)
  next
    case (Recall a)
    then show ?thesis by (simp add: handleRecall_def Let_def again)
  next
    case (Modify a)
    then show ?thesis by (simp add: handleModify_def Let_def again split: option.splits)
  next
    case (Erase a)
    then show ?thesis by (simp add: handleErase_def Let_def again)
  qed
  have recall: "handleRecall getTime env args file = (Inr (Found []), file)" for args
    by (simp add: handleRecall_def Let_def load recall_matches_def filterMemories_def
          searchMemories_def slice0_Nil split: option.splits)
  have reflect: "\<exists>m. handleReflect env args file =
      (Inr (Stored m),
       Document \<lparr>memories = [m], version = ''1.0.0'', last_updated = clock_save env\<rparr>)"
    for args
    by (simp add: handleReflect_def Let_def load saveMemories_def)
  from load calls recall reflect show ?thesis by blast
qed

theorem load_failure_is_empty_store_witness:
  "(NoFile = NoFile \<or> NoFile = InvalidJson) \<and>
   memories (loadMemories example_env NoFile) = [] \<and>
   handleRecall example_getTime example_env recall_nothing NoFile = (Inr (Found []), NoFile)"
proof -
  have h: "NoFile = NoFile \<or> NoFile = InvalidJson" by simp
  show ?thesis
    using load_failure_is_empty_store [OF h, of example_env example_getTime] by simp
qed

end
